theory Spec2Isabelle
  imports Complex_Main "HOL-Library.Sublist"
begin

section \<open>UnidBox Order Copilot: the order-intake pipeline\<close>

text \<open>
  A shallow embedding of \<^verbatim>\<open>backend/ai/order_extractor.py\<close>,
  \<^verbatim>\<open>backend/ai/product_matcher.py\<close>, \<^verbatim>\<open>backend/ai/intent_parser.py\<close> and
  \<^verbatim>\<open>backend/whatsapp/message_handler.py\<close>.

  Conventions of the embedding.
  \<^item> Python \<^verbatim>\<open>float\<close> values are idealised as \<^typ>\<open>real\<close>: arithmetic is exact, and
    \<^verbatim>\<open>round(x, 2)\<close> is rounding of the exact value to the nearest multiple of 1/100,
    ties to the even neighbour.
  \<^item> Python \<^verbatim>\<open>str\<close> is \<^typ>\<open>string\<close>; \<^verbatim>\<open>lower\<close>, \<^verbatim>\<open>strip\<close>, \<^verbatim>\<open>split\<close> and the
    regular-expression class \<^verbatim>\<open>\d\<close> are given their ASCII meaning.
  \<^item> Python \<^verbatim>\<open>int\<close> is \<^typ>\<open>int\<close>; the interpreter's configurable limit on the
    length of a digit string that \<^verbatim>\<open>int\<close> converts (4300 digits by default from
    Python 3.11 on) is not modelled.
  \<^item> A dictionary with a fixed set of keys is a record; a value that may be \<^verbatim>\<open>None\<close>
    is an \<^typ>\<open>'a option\<close>.
  \<^item> Every exception of the source is a value \<open>Inl e\<close> of a result type
    \<^verbatim>\<open>py_error + 'a\<close>.
\<close>

subsection \<open>Python primitives\<close>

datatype py_error = AttributeError | ValueError | TypeError

text \<open>\<^verbatim>\<open>round(x, 2)\<close>: round-half-even on the scaled value.\<close>

definition round_half_even :: "real \<Rightarrow> int" where
  "round_half_even x =
     (let f = \<lfloor>x\<rfloor>; d = x - of_int f
      in if d < 1 / 2 then f
         else if 1 / 2 < d then f + 1
         else if even f then f else f + 1)"

definition py_round2 :: "real \<Rightarrow> real" where
  "py_round2 x = of_int (round_half_even (x * 100)) / 100"

text \<open>\<^verbatim>\<open>str.lower\<close> on ASCII letters.\<close>

definition lower_char :: "char \<Rightarrow> char" where
  "lower_char c =
     (let n = of_char c :: nat in if 65 \<le> n \<and> n \<le> 90 then char_of (n + 32) else c)"

definition lower :: "string \<Rightarrow> string" where
  "lower s = map lower_char s"

text \<open>The whitespace characters of \<^verbatim>\<open>str.strip\<close> and \<^verbatim>\<open>str.split\<close> (ASCII): tab, line feed,
  vertical tab, form feed, carriage return, the four separators 28 to 31, and space.\<close>

definition is_space :: "char \<Rightarrow> bool" where
  "is_space c = (let n = of_char c :: nat in (9 \<le> n \<and> n \<le> 13) \<or> (28 \<le> n \<and> n \<le> 32))"

definition strip :: "string \<Rightarrow> string" where
  "strip s = rev (dropWhile is_space (rev (dropWhile is_space s)))"

text \<open>\<^verbatim>\<open>needle in haystack\<close> for strings: some suffix of the haystack starts with the needle.\<close>

fun contains :: "string \<Rightarrow> string \<Rightarrow> bool" where
  "contains [] needle = (needle = [])"
| "contains (c # cs) needle = (prefix needle (c # cs) \<or> contains cs needle)"

text \<open>\<^verbatim>\<open>str(n)\<close> for a natural number (the lengths printed in the confirmation notes).\<close>

fun str_nat :: "nat \<Rightarrow> string" where
  "str_nat n =
     (if n < 10 then [char_of (48 + n)]
      else str_nat (n div 10) @ [char_of (48 + n mod 10)])"

subsection \<open>Order extractor: data model\<close>

text \<open>\<^verbatim>\<open>OrderItem\<close>.\<close>

record order_item =
  oi_product_id :: string
  oi_product_name :: string
  oi_quantity :: int
  oi_unit_price :: real
  oi_total_price :: real
  oi_brand :: "string option"
  oi_category :: "string option"
  oi_notes :: "string option"
  oi_match_confidence :: real

text \<open>\<^verbatim>\<open>OrderSummary\<close>.\<close>

record order_summary =
  subtotal :: real
  discount :: real
  tax :: real
  shipping :: real
  total :: real
  currency :: string

text \<open>\<^verbatim>\<open>DeliveryDetails\<close>.\<close>

record delivery_details =
  dd_address :: string
  dd_city :: string
  dd_postal_code :: "string option"
  dd_contact_name :: "string option"
  dd_contact_phone :: "string option"
  dd_preferred_date :: "string option"
  dd_preferred_time :: "string option"
  dd_instructions :: "string option"

text \<open>\<^verbatim>\<open>ExtractedOrder\<close>.\<close>

record extracted_order =
  order_id :: string
  items :: "order_item list"
  summary :: order_summary
  delivery :: "delivery_details option"
  customer_name :: "string option"
  customer_contact :: "string option"
  raw_inquiry :: string
  confidence_score :: real
  needs_confirmation :: bool
  confirmation_notes :: "string list"
  created_at :: string
  status :: string

text \<open>
  The inputs of the extractor are the dictionaries written by \<^verbatim>\<open>IntentParser.to_dict\<close> and
  \<^verbatim>\<open>ProductMatcher.to_dict\<close> (the only caller, \<^verbatim>\<open>MessageHandler._handle_new_inquiry\<close>, passes
  exactly these), so every key is present and the \<^verbatim>\<open>dict.get\<close> defaults of the source are
  never taken; a field is \<open>None\<close> where the dictionary holds \<^verbatim>\<open>None\<close>. The keys the
  extractor never reads (\<^verbatim>\<open>specifications\<close>, \<^verbatim>\<open>original_price\<close>, \<^verbatim>\<open>url\<close>, \<^verbatim>\<open>image_path\<close>,
  \<^verbatim>\<open>match_reason\<close>) are left out.
\<close>

text \<open>\<^verbatim>\<open>ProductIntent\<close> and its dictionary.\<close>

record product_intent =
  pi_raw_text :: string
  pi_product_name :: "string option"
  pi_quantity :: "int option"
  pi_brand :: "string option"
  pi_category :: "string option"
  pi_confidence :: real

text \<open>\<^verbatim>\<open>DeliveryIntent\<close> and its dictionary.\<close>

record delivery_intent =
  di_address :: "string option"
  di_date :: "string option"
  di_urgency :: "string option"
  di_notes :: "string option"

text \<open>\<^verbatim>\<open>IntentType\<close>.\<close>

datatype IntentType =
  ORDER_INQUIRY | PRICE_CHECK | STOCK_CHECK | ORDER_STATUS | GENERAL_QUESTION | UNCLEAR

text \<open>\<^verbatim>\<open>ParsedIntent\<close>; \<^verbatim>\<open>IntentParser.to_dict\<close> copies it field by field, so the same
  record stands for the dictionary.\<close>

record parsed_intent =
  intent_type :: IntentType
  products :: "product_intent list"
  p_delivery :: "delivery_intent option"
  p_customer_name :: "string option"
  p_contact_info :: "string option"
  p_raw_message :: string
  p_confidence_score :: real
  p_needs_clarification :: bool
  p_clarification_questions :: "string list"
  p_summary :: string

text \<open>One entry of \<^verbatim>\<open>ProductMatcher.to_dict(result)['matches']\<close>.\<close>

record matched_dict =
  md_product_id :: string
  md_name :: string
  md_clean_name :: string
  md_price :: real
  md_brand :: "string option"
  md_category :: "string option"
  md_match_score :: real

text \<open>The extractor's configuration, as \<^verbatim>\<open>OrderExtractor.__init__\<close> sets it.\<close>

record extractor =
  tax_rate :: real
  free_shipping_threshold :: real

definition DEFAULT_TAX_RATE :: real where "DEFAULT_TAX_RATE = 0.09"
definition FREE_SHIPPING_THRESHOLD :: real where "FREE_SHIPPING_THRESHOLD = 500"
definition DEFAULT_SHIPPING :: real where "DEFAULT_SHIPPING = 50"

definition init_extractor :: "real option \<Rightarrow> real option \<Rightarrow> extractor" where
  "init_extractor rate threshold =
     \<lparr> tax_rate = (case rate of None \<Rightarrow> DEFAULT_TAX_RATE | Some r \<Rightarrow> r),
       free_shipping_threshold =
         (case threshold of
            None \<Rightarrow> FREE_SHIPPING_THRESHOLD
          | Some t \<Rightarrow> if t = 0 then FREE_SHIPPING_THRESHOLD else t) \<rparr>"

subsection \<open>Order extractor: operations\<close>

text \<open>\<^verbatim>\<open>_find_best_match\<close>. \<^verbatim>\<open>intent.get('brand', '').lower()\<close> raises \<^verbatim>\<open>AttributeError\<close> when
  the key holds \<^verbatim>\<open>None\<close>, and so does the category; the loop keeps the first product whose
  boosted score is strictly greater than the best so far.\<close>

fun best_match_loop ::
  "string \<Rightarrow> string \<Rightarrow> matched_dict list \<Rightarrow> matched_dict option \<Rightarrow> real
     \<Rightarrow> py_error + matched_dict option" where
  "best_match_loop intent_brand intent_category [] best_match best_score = Inr best_match"
| "best_match_loop intent_brand intent_category (product # rest) best_match best_score =
     (let score0 = md_match_score product;
          score1 = (if intent_brand \<noteq> [] \<and> contains (lower (md_name product)) intent_brand
                    then score0 + 0.2 else score0)
      in if intent_category \<noteq> [] \<and> md_category product = None then Inl AttributeError
         else
           (let score2 = (if intent_category \<noteq> []
                             \<and> intent_category = lower (the (md_category product))
                          then score1 + 0.1 else score1)
            in if score2 > best_score
               then best_match_loop intent_brand intent_category rest (Some product) score2
               else best_match_loop intent_brand intent_category rest best_match best_score))"

definition find_best_match ::
  "product_intent \<Rightarrow> matched_dict list \<Rightarrow> py_error + matched_dict option" where
  "find_best_match intent matched_products =
     (case pi_brand intent of
        None \<Rightarrow> Inl AttributeError
      | Some b \<Rightarrow>
          (case pi_category intent of
             None \<Rightarrow> Inl AttributeError
           | Some c \<Rightarrow> best_match_loop (lower b) (lower c) matched_products None 0))"

text \<open>The quantity of a line: \<^verbatim>\<open>intent.get('quantity', 1) or 1\<close>.\<close>

definition line_quantity :: "product_intent \<Rightarrow> int" where
  "line_quantity intent =
     (case pi_quantity intent of None \<Rightarrow> 1 | Some q \<Rightarrow> if q = 0 then 1 else q)"

definition matched_item :: "product_intent \<Rightarrow> matched_dict \<Rightarrow> order_item" where
  "matched_item intent matched =
     (let quantity = line_quantity intent; unit_price = md_price matched
      in \<lparr> oi_product_id = md_product_id matched,
           oi_product_name = md_clean_name matched,
           oi_quantity = quantity,
           oi_unit_price = unit_price,
           oi_total_price = unit_price * of_int quantity,
           oi_brand = md_brand matched,
           oi_category = md_category matched,
           oi_notes = Some (pi_raw_text intent),
           oi_match_confidence = md_match_score matched \<rparr>)"

definition unmatched_item :: "product_intent \<Rightarrow> order_item" where
  "unmatched_item intent =
     \<lparr> oi_product_id = ''UNMATCHED'',
       oi_product_name = pi_raw_text intent,
       oi_quantity = line_quantity intent,
       oi_unit_price = 0,
       oi_total_price = 0,
       oi_brand = pi_brand intent,
       oi_category = pi_category intent,
       oi_notes = Some ''Product not found in catalog - requires manual matching'',
       oi_match_confidence = 0 \<rparr>"

text \<open>The body of the loop of \<^verbatim>\<open>_extract_items\<close> for the mention at index \<open>i\<close>.\<close>

definition extract_item ::
  "matched_dict list \<Rightarrow> nat \<Rightarrow> product_intent \<Rightarrow> py_error + order_item" where
  "extract_item matched_products i intent =
     (if i < length matched_products
      then Inr (matched_item intent (matched_products ! i))
      else if matched_products \<noteq> []
      then (case find_best_match intent matched_products of
              Inl e \<Rightarrow> Inl e
            | Inr None \<Rightarrow> Inr (unmatched_item intent)
            | Inr (Some m) \<Rightarrow> Inr (matched_item intent m))
      else Inr (unmatched_item intent))"

text \<open>\<^verbatim>\<open>_extract_items\<close>: the loop over \<^verbatim>\<open>enumerate(product_intents)\<close>, from index \<open>i\<close>; the
  first exception ends it.\<close>

fun extract_items_from ::
  "matched_dict list \<Rightarrow> nat \<Rightarrow> product_intent list \<Rightarrow> py_error + order_item list" where
  "extract_items_from matched_products i [] = Inr []"
| "extract_items_from matched_products i (intent # rest) =
     (case extract_item matched_products i intent of
        Inl e \<Rightarrow> Inl e
      | Inr item \<Rightarrow>
          (case extract_items_from matched_products (Suc i) rest of
             Inl e \<Rightarrow> Inl e
           | Inr others \<Rightarrow> Inr (item # others)))"

definition extract_items ::
  "parsed_intent \<Rightarrow> matched_dict list \<Rightarrow> py_error + order_item list" where
  "extract_items parsed matched_products =
     extract_items_from matched_products 0 (products parsed)"

text \<open>\<^verbatim>\<open>_calculate_summary\<close>.\<close>

definition calculate_summary :: "extractor \<Rightarrow> order_item list \<Rightarrow> order_summary" where
  "calculate_summary self its =
     (let sub = sum_list (map oi_total_price its);
          ship = (if sub \<ge> free_shipping_threshold self then 0 else DEFAULT_SHIPPING);
          tx = sub * tax_rate self;
          tot = sub + tx + ship
      in \<lparr> subtotal = py_round2 sub,
           discount = 0,
           tax = py_round2 tx,
           shipping = py_round2 ship,
           total = py_round2 tot,
           currency = ''SGD'' \<rparr>)"

text \<open>\<^verbatim>\<open>_extract_delivery\<close>.\<close>

definition extract_delivery :: "parsed_intent \<Rightarrow> delivery_details option" where
  "extract_delivery parsed =
     (case p_delivery parsed of
        None \<Rightarrow> None
      | Some d \<Rightarrow>
          (case di_address d of
             None \<Rightarrow> None
           | Some a \<Rightarrow>
               if a = [] then None
               else Some \<lparr> dd_address = a,
                           dd_city = ''Singapore'',
                           dd_postal_code = None,
                           dd_contact_name = p_customer_name parsed,
                           dd_contact_phone = p_contact_info parsed,
                           dd_preferred_date = di_date d,
                           dd_preferred_time = None,
                           dd_instructions = di_notes d \<rparr>))"

text \<open>\<^verbatim>\<open>_calculate_confidence\<close>.\<close>

definition calculate_confidence :: "parsed_intent \<Rightarrow> order_item list \<Rightarrow> real" where
  "calculate_confidence parsed its =
     (if its = [] then 0
      else
        (let item_confidence = sum_list (map oi_match_confidence its) / of_nat (length its);
             intent_confidence = p_confidence_score parsed
         in py_round2 (item_confidence * 0.6 + intent_confidence * 0.4)))"

text \<open>\<^verbatim>\<open>_check_confirmation_needs\<close>: the flag and the notes.\<close>

definition check_confirmation_needs ::
  "parsed_intent \<Rightarrow> order_item list \<Rightarrow> delivery_details option \<Rightarrow> bool \<times> string list" where
  "check_confirmation_needs parsed its deliv =
     (let unmatched = filter (\<lambda>item. oi_product_id item = ''UNMATCHED'') its;
          (n1, notes1) =
            (if unmatched \<noteq> []
             then (True, [str_nat (length unmatched)
                            @ '' product(s) could not be matched - manual selection required''])
             else (False, []));
          low_confidence =
            filter (\<lambda>item. oi_match_confidence item < 0.7 \<and> oi_product_id item \<noteq> ''UNMATCHED'') its;
          (n2, notes2) =
            (if low_confidence \<noteq> []
             then (True, notes1 @ [str_nat (length low_confidence)
                            @ '' product(s) have low match confidence - please verify''])
             else (n1, notes1));
          missing_qty = filter (\<lambda>item. oi_quantity item \<le> 0) its;
          (n3, notes3) =
            (if missing_qty \<noteq> []
             then (True, notes2 @ [''Some items are missing quantities''])
             else (n2, notes2));
          (n4, notes4) =
            (if deliv = None
             then (True, notes3 @ [''Delivery address required''])
             else (n3, notes3))
      in if p_needs_clarification parsed
         then (True, notes4 @ p_clarification_questions parsed)
         else (n4, notes4))"

text \<open>\<^verbatim>\<open>OrderExtractor.extract\<close> (named \<open>extract_order\<close>, since \<open>extract\<close> is a
  keyword of Isabelle). The order id and the creation time come from the clock and from
  \<^verbatim>\<open>uuid4\<close>; they are arguments here.\<close>

definition extract_order ::
  "extractor \<Rightarrow> string \<Rightarrow> string \<Rightarrow> parsed_intent \<Rightarrow> matched_dict list \<Rightarrow> string
     \<Rightarrow> py_error + extracted_order" where
  "extract_order self new_id now parsed matched_products raw_message =
     (case extract_items parsed matched_products of
        Inl e \<Rightarrow> Inl e
      | Inr its \<Rightarrow>
          (let deliv = extract_delivery parsed;
               (needs, notes) = check_confirmation_needs parsed its deliv
           in Inr \<lparr> order_id = new_id,
                    items = its,
                    summary = calculate_summary self its,
                    delivery = deliv,
                    customer_name = p_customer_name parsed,
                    customer_contact = p_contact_info parsed,
                    raw_inquiry = raw_message,
                    confidence_score = calculate_confidence parsed its,
                    needs_confirmation = needs,
                    confirmation_notes = notes,
                    created_at = now,
                    status = ''draft'' \<rparr>))"

text \<open>\<^verbatim>\<open>apply_discount\<close>.\<close>

definition apply_discount :: "extractor \<Rightarrow> extracted_order \<Rightarrow> real \<Rightarrow> extracted_order" where
  "apply_discount self order discount_percent =
     (let s = summary order;
          discount_amount = subtotal s * (discount_percent / 100)
      in order\<lparr> summary :=
           \<lparr> subtotal = subtotal s,
             discount = py_round2 discount_amount,
             tax = py_round2 ((subtotal s - discount_amount) * tax_rate self),
             shipping = shipping s,
             total = py_round2 (subtotal s - discount_amount
                                + (subtotal s - discount_amount) * tax_rate self
                                + shipping s),
             currency = currency s \<rparr> \<rparr>)"

text \<open>A sequence of \<^verbatim>\<open>apply_discount\<close> calls on one order.\<close>

definition apply_discounts :: "extractor \<Rightarrow> extracted_order \<Rightarrow> real list \<Rightarrow> extracted_order" where
  "apply_discounts self order percents = foldl (apply_discount self) order percents"

subsection \<open>Intent parser\<close>

text \<open>More string primitives: \<^verbatim>\<open>str.title\<close> (a letter is upper-cased after a character that
  is not a letter and lower-cased after a letter), the digits of \<^verbatim>\<open>\d\<close>, \<^verbatim>\<open>int\<close> of a string
  of digits, and \<^verbatim>\<open>any(word in text for word in words)\<close>.\<close>

definition upper_char :: "char \<Rightarrow> char" where
  "upper_char c =
     (let n = of_char c :: nat in if 97 \<le> n \<and> n \<le> 122 then char_of (n - 32) else c)"

definition is_alpha :: "char \<Rightarrow> bool" where
  "is_alpha c = (let n = of_char c :: nat in (65 \<le> n \<and> n \<le> 90) \<or> (97 \<le> n \<and> n \<le> 122))"

fun title_from :: "bool \<Rightarrow> string \<Rightarrow> string" where
  "title_from previous_is_cased [] = []"
| "title_from previous_is_cased (c # cs) =
     (if is_alpha c
      then (if previous_is_cased then lower_char c else upper_char c) # title_from True cs
      else c # title_from False cs)"

definition title :: "string \<Rightarrow> string" where
  "title s = title_from False s"

definition is_digit :: "char \<Rightarrow> bool" where
  "is_digit c = (let n = of_char c :: nat in 48 \<le> n \<and> n \<le> 57)"

definition digit_value :: "char \<Rightarrow> int" where
  "digit_value c = int (of_char c) - 48"

definition py_int :: "string \<Rightarrow> int" where
  "py_int ds = foldl (\<lambda>acc c. 10 * acc + digit_value c) 0 ds"

definition any_in :: "string list \<Rightarrow> string \<Rightarrow> bool" where
  "any_in words text = list_ex (\<lambda>word. contains text word) words"

text \<open>The dictionary that \<^verbatim>\<open>_pattern_match\<close> returns and that the completion service is
  asked for. A field is \<open>None\<close> when its key is absent (\<^verbatim>\<open>dict.get\<close> then takes its
  default) or, for the optional values, \<^verbatim>\<open>None\<close>; \<open>r_delivery\<close> is \<open>None\<close> when the key is
  absent or holds an empty dictionary.\<close>

record response_product =
  rp_raw_text :: "string option"
  rp_product_name :: "string option"
  rp_quantity :: "int option"
  rp_brand :: "string option"
  rp_category :: "string option"
  rp_confidence :: "real option"

record response =
  r_intent_type :: "string option"
  r_products :: "response_product list option"
  r_delivery :: "delivery_intent option"
  r_customer_name :: "string option"
  r_contact_info :: "string option"
  r_confidence_score :: "real option"
  r_needs_clarification :: "bool option"
  r_clarification_questions :: "string list option"
  r_summary :: "string option"

text \<open>\<^verbatim>\<open>IntentType(value)\<close>: the enumeration member with that value, \<^verbatim>\<open>ValueError\<close> when there
  is none.\<close>

definition IntentType_of :: "string \<Rightarrow> py_error + IntentType" where
  "IntentType_of v =
     (if v = ''order_inquiry'' then Inr ORDER_INQUIRY
      else if v = ''price_check'' then Inr PRICE_CHECK
      else if v = ''stock_check'' then Inr STOCK_CHECK
      else if v = ''order_status'' then Inr ORDER_STATUS
      else if v = ''general_question'' then Inr GENERAL_QUESTION
      else if v = ''unclear'' then Inr UNCLEAR
      else Inl ValueError)"

text \<open>The tables of \<^verbatim>\<open>_pattern_match\<close>, in the order of the source.\<close>

definition product_keywords :: "(string \<times> string) list" where
  "product_keywords =
     [(''ceiling fan'', ''Ceiling Fans''), (''fan'', ''Ceiling Fans''),
      (''hood'', ''Range Hoods''), (''chimney'', ''Range Hoods''),
      (''hob'', ''Hobs & Stoves''), (''stove'', ''Hobs & Stoves''),
      (''tap'', ''Kitchen Taps''), (''sink'', ''Kitchen Sinks''),
      (''drill'', ''Power Tools''), (''power tool'', ''Power Tools'')]"

definition brands :: "string list" where
  "brands = [''acorn'', ''spin'', ''fanco'', ''crestar'', ''tecno'', ''ef'', ''pozzi'', ''worx'',
             ''makita'', ''alaska'']"

definition sg_areas :: "string list" where
  "sg_areas = [''hougang'', ''kovan'', ''macpherson'', ''bedok'', ''tampines'', ''jurong'',
               ''woodlands'', ''yishun'']"

text \<open>The quantity of \<^verbatim>\<open>_pattern_match\<close>:
  \<^verbatim>\<open>re.search(r'(\d+)\s*(units?|pcs?|pieces?|sets?)?', message_lower)\<close> and \<^verbatim>\<open>int\<close> of its
  group 1. The search takes the leftmost match; \<^verbatim>\<open>\d+\<close> is greedy and everything after it
  in the pattern may match the empty string, so the match starts at the first digit of the
  text and group 1 is the longest run of digits from there.\<close>

definition quantity_match :: "string \<Rightarrow> string option" where
  "quantity_match message_lower =
     (let rest = dropWhile (\<lambda>c. \<not> is_digit c) message_lower
      in if rest = [] then None else Some (takeWhile is_digit rest))"

definition match_quantity :: "string \<Rightarrow> int option" where
  "match_quantity message_lower =
     (case quantity_match message_lower of None \<Rightarrow> None | Some group1 \<Rightarrow> Some (py_int group1))"

text \<open>\<^verbatim>\<open>_generate_clarification_questions\<close>.\<close>

definition generate_clarification_questions ::
  "response_product list \<Rightarrow> int option \<Rightarrow> string list" where
  "generate_clarification_questions prods quantity =
     (let questions1 =
            (case prods of
               [] \<Rightarrow> [''Could you please specify which products you're interested in?'']
             | p # _ \<Rightarrow>
                 (if rp_product_name p = None \<or> rp_product_name p = Some []
                  then [''Could you provide more details about the specific model you need?'']
                  else []))
      in if quantity = None then questions1 @ [''How many units do you need?'']
         else questions1)"

text \<open>\<^verbatim>\<open>_pattern_match\<close>.\<close>

definition pattern_match :: "string \<Rightarrow> response" where
  "pattern_match message =
     (let message_lower = lower message;
          intent =
            (if any_in [''price'', ''cost'', ''how much''] message_lower then ''price_check''
             else if any_in [''stock'', ''available'', ''availability''] message_lower
             then ''stock_check''
             else if any_in [''status'', ''where is'', ''tracking''] message_lower
             then ''order_status''
             else ''order_inquiry'');
          detected_brand =
            map_option title (find (\<lambda>brand. contains message_lower brand) brands);
          detected_category =
            map_option snd (find (\<lambda>(keyword, category). contains message_lower keyword)
                              product_keywords);
          quantity = match_quantity message_lower;
          prods =
            (if detected_category \<noteq> None \<or> detected_brand \<noteq> None
             then [\<lparr> rp_raw_text = Some message, rp_product_name = None,
                      rp_quantity = quantity, rp_brand = detected_brand,
                      rp_category = detected_category, rp_confidence = Some 0.6 \<rparr>]
             else []);
          urgency =
            (if any_in [''urgent'', ''asap'', ''rush''] message_lower then Some ''urgent''
             else if any_in [''next week'', ''no rush''] message_lower then Some ''flexible''
             else None);
          address = map_option title (find (\<lambda>area. contains message_lower area) sg_areas)
      in \<lparr> r_intent_type = Some intent,
           r_products = Some prods,
           r_delivery = Some \<lparr> di_address = address, di_date = None, di_urgency = urgency,
                                di_notes = None \<rparr>,
           r_customer_name = None,
           r_contact_info = None,
           r_confidence_score = Some 0.5,
           r_needs_clarification = Some (prods = [] \<or> quantity = None),
           r_clarification_questions = Some (generate_clarification_questions prods quantity),
           r_summary =
             Some (''Request for ''
                   @ (case detected_category of None \<Rightarrow> ''products'' | Some c \<Rightarrow> c)
                   @ (case detected_brand of None \<Rightarrow> [] | Some b \<Rightarrow> '' from '' @ b)) \<rparr>)"

text \<open>\<^verbatim>\<open>_parse_response\<close>.\<close>

definition parse_product :: "response_product \<Rightarrow> product_intent" where
  "parse_product p =
     \<lparr> pi_raw_text = (case rp_raw_text p of None \<Rightarrow> [] | Some t \<Rightarrow> t),
       pi_product_name = rp_product_name p,
       pi_quantity = rp_quantity p,
       pi_brand = rp_brand p,
       pi_category = rp_category p,
       pi_confidence = (case rp_confidence p of None \<Rightarrow> 0.5 | Some c \<Rightarrow> c) \<rparr>"

definition parse_response :: "response \<Rightarrow> string \<Rightarrow> py_error + parsed_intent" where
  "parse_response resp original_message =
     (case IntentType_of (case r_intent_type resp of None \<Rightarrow> ''unclear'' | Some v \<Rightarrow> v) of
        Inl e \<Rightarrow> Inl e
      | Inr t \<Rightarrow>
          Inr \<lparr> intent_type = t,
                products = map parse_product
                             (case r_products resp of None \<Rightarrow> [] | Some ps \<Rightarrow> ps),
                p_delivery = r_delivery resp,
                p_customer_name = r_customer_name resp,
                p_contact_info = r_contact_info resp,
                p_raw_message = original_message,
                p_confidence_score =
                  (case r_confidence_score resp of None \<Rightarrow> 0.5 | Some c \<Rightarrow> c),
                p_needs_clarification =
                  (case r_needs_clarification resp of None \<Rightarrow> False | Some b \<Rightarrow> b),
                p_clarification_questions =
                  (case r_clarification_questions resp of None \<Rightarrow> [] | Some qs \<Rightarrow> qs),
                p_summary = (case r_summary resp of None \<Rightarrow> [] | Some t \<Rightarrow> t) \<rparr>)"

text \<open>\<^verbatim>\<open>_fallback_parse\<close>, \<^verbatim>\<open>_empty_intent\<close>.\<close>

definition fallback_parse :: "string \<Rightarrow> py_error + parsed_intent" where
  "fallback_parse message = parse_response (pattern_match message) message"

definition empty_intent :: "string \<Rightarrow> parsed_intent" where
  "empty_intent message =
     \<lparr> intent_type = UNCLEAR,
       products = [],
       p_delivery = None,
       p_customer_name = None,
       p_contact_info = None,
       p_raw_message = message,
       p_confidence_score = 0,
       p_needs_clarification = True,
       p_clarification_questions = [''Could you please describe what you're looking for?''],
       p_summary = ''Empty or unclear message'' \<rparr>"

text \<open>\<^verbatim>\<open>_call_llm\<close> and \<^verbatim>\<open>parse\<close>. The injected client is a function from the message to the
  decoded JSON object or to the exception that the call or \<^verbatim>\<open>json.loads\<close> raises; without
  a client \<^verbatim>\<open>_call_llm\<close> is \<^verbatim>\<open>_pattern_match\<close>. The \<^verbatim>\<open>try\<close> block of \<^verbatim>\<open>parse\<close> covers the call
  and \<^verbatim>\<open>_parse_response\<close>; its handler returns \<^verbatim>\<open>_fallback_parse(message)\<close>.\<close>

type_synonym llm_client = "string \<Rightarrow> py_error + response"

definition call_llm :: "llm_client option \<Rightarrow> string \<Rightarrow> py_error + response" where
  "call_llm client message =
     (case client of None \<Rightarrow> Inr (pattern_match message) | Some invoke \<Rightarrow> invoke message)"

definition parse :: "llm_client option \<Rightarrow> string \<Rightarrow> py_error + parsed_intent" where
  "parse client message =
     (if message = [] \<or> strip message = [] then Inr (empty_intent message)
      else
        (case call_llm client message of
           Inl e \<Rightarrow> fallback_parse message
         | Inr resp \<Rightarrow>
             (case parse_response resp message of
                Inl e \<Rightarrow> fallback_parse message
              | Inr parsed \<Rightarrow> Inr parsed)))"

subsection \<open>Product matcher\<close>

text \<open>A catalog record, as loaded from the JSON catalog: the keys that scoring reads. A field
  is \<open>None\<close> when the key is absent (\<^verbatim>\<open>product.get('name', '')\<close> is then the empty string and
  \<^verbatim>\<open>product.get('clean_name', product_name)\<close> the lower-cased name).\<close>

record catalog_product =
  cp_item_id :: "string option"
  cp_name :: "string option"
  cp_clean_name :: "string option"

text \<open>\<^verbatim>\<open>KNOWN_BRANDS\<close> and \<^verbatim>\<open>CATEGORY_KEYWORDS\<close>, in the order of the source.\<close>

definition KNOWN_BRANDS :: "(string \<times> string) list" where
  "KNOWN_BRANDS =
     [(''acorn'', ''Acorn''), (''spin'', ''Spin''), (''fanco'', ''Fanco''),
      (''crestar'', ''Crestar''), (''alaska'', ''Alaska''), (''tecno'', ''Tecno''),
      (''ef'', ''EF''), (''ka'', ''KA''), (''pozzi'', ''Pozzi''), (''worx'', ''WORX''),
      (''makita'', ''Makita'')]"

definition CATEGORY_KEYWORDS :: "(string \<times> string list) list" where
  "CATEGORY_KEYWORDS =
     [(''Ceiling Fans'', [''ceiling fan'', ''fan'', ''dc fan'', ''wifi fan'']),
      (''Range Hoods'', [''hood'', ''chimney'', ''range hood'', ''kitchen hood'']),
      (''Hobs & Stoves'', [''hob'', ''stove'', ''cooktop'', ''gas hob'', ''induction'']),
      (''Kitchen Taps'', [''kitchen tap'', ''sink tap'', ''faucet'']),
      (''Basin Taps'', [''basin tap'', ''bathroom tap'', ''basin mixer'']),
      (''Power Tools'', [''drill'', ''power tool'', ''grinder'', ''saw'', ''washer'', ''blower'']),
      (''Kitchen Sinks'', [''sink'', ''kitchen sink'']),
      (''Bathroom Fixtures'', [''bathroom'', ''shower'', ''toilet'']),
      (''Water Heaters'', [''water heater'', ''heater''])]"

text \<open>\<^verbatim>\<open>str.split()\<close>: the maximal runs of characters that are not whitespace; \<open>word\<close> is the
  run read so far.\<close>

fun split_from :: "string \<Rightarrow> string \<Rightarrow> string list" where
  "split_from word [] = (if word = [] then [] else [word])"
| "split_from word (c # cs) =
     (if is_space c
      then (if word = [] then split_from [] cs else word # split_from [] cs)
      else split_from (word @ [c]) cs)"

definition py_split :: "string \<Rightarrow> string list" where
  "py_split s = split_from [] s"

text \<open>\<^verbatim>\<open>xs[:n]\<close>: the first \<open>n\<close> elements, and for a negative \<open>n\<close> all but the last \<open>-n\<close>.\<close>

definition py_slice_to :: "int \<Rightarrow> 'a list \<Rightarrow> 'a list" where
  "py_slice_to n xs = (if 0 \<le> n then take (nat n) xs else take (length xs - nat (- n)) xs)"

text \<open>\<^verbatim>\<open>SequenceMatcher(None, a, b).ratio()\<close> belongs to Python's \<^verbatim>\<open>difflib\<close>, not to the
  repository: the matcher takes it as a parameter.\<close>

type_synonym similarity = "string \<Rightarrow> string \<Rightarrow> real"

text \<open>\<^verbatim>\<open>_score_product\<close>, first without its last step (the cap at 1.0), then with it. The
  reason string is left out. \<^verbatim>\<open>set(query.split())\<close> is the list of distinct words.\<close>

definition score_product_uncapped ::
  "similarity \<Rightarrow> catalog_product \<Rightarrow> string \<Rightarrow> string option \<Rightarrow> string option \<Rightarrow> real" where
  "score_product_uncapped ratio product query brand category =
     (let product_name = lower (case cp_name product of None \<Rightarrow> [] | Some n \<Rightarrow> n);
          clean_name =
            lower (case cp_clean_name product of None \<Rightarrow> product_name | Some c \<Rightarrow> c);
          name_score = ratio query clean_name;
          score1 = (if name_score > 0.3 then 0 + name_score * 0.5 else 0);
          query_words = remdups (py_split query);
          name_words = remdups (py_split clean_name);
          common_words = filter (\<lambda>w. w \<in> set name_words) query_words;
          score2 =
            (if common_words \<noteq> []
             then score1
                  + real (length common_words) / real (max (length query_words) 1) * 0.3
             else score1);
          score3 =
            (case brand of
               None \<Rightarrow> score2
             | Some b \<Rightarrow>
                 if b \<noteq> [] \<and> contains product_name (lower b) then score2 + 0.3 else score2);
          score4 =
            (case category of
               None \<Rightarrow> score3
             | Some c \<Rightarrow>
                 if c \<noteq> []
                    \<and> any_in (case map_of CATEGORY_KEYWORDS c of None \<Rightarrow> [] | Some kws \<Rightarrow> kws)
                         product_name
                 then score3 + 0.2 else score3)
      in score4)"

definition score_product ::
  "similarity \<Rightarrow> catalog_product \<Rightarrow> string \<Rightarrow> string option \<Rightarrow> string option \<Rightarrow> real" where
  "score_product ratio product query brand category =
     min (score_product_uncapped ratio product query brand category) 1"

text \<open>The two detection loops of \<^verbatim>\<open>match\<close>: a hint that is \<^verbatim>\<open>None\<close> or empty is replaced by
  the first brand, or the first category, that the query mentions.\<close>

definition detect_brand :: "string option \<Rightarrow> string \<Rightarrow> string option" where
  "detect_brand brand query_lower =
     (if brand = None \<or> brand = Some []
      then (case find (\<lambda>(brand_key, brand_name). contains query_lower brand_key) KNOWN_BRANDS of
              None \<Rightarrow> brand
            | Some (brand_key, brand_name) \<Rightarrow> Some brand_name)
      else brand)"

definition detect_category :: "string option \<Rightarrow> string \<Rightarrow> string option" where
  "detect_category category query_lower =
     (if category = None \<or> category = Some []
      then (case find (\<lambda>(cat_name, keywords). any_in keywords query_lower) CATEGORY_KEYWORDS of
              None \<Rightarrow> category
            | Some (cat_name, keywords) \<Rightarrow> Some cat_name)
      else category)"

text \<open>The scored catalog of \<^verbatim>\<open>match\<close>, before the \<^verbatim>\<open>min_score\<close> test: each record with its
  score, in catalog order.\<close>

definition score_catalog ::
  "similarity \<Rightarrow> catalog_product list \<Rightarrow> string \<Rightarrow> string option \<Rightarrow> string option
     \<Rightarrow> (real \<times> catalog_product) list" where
  "score_catalog ratio catalog query brand category =
     (let query_lower = strip (lower query);
          detected_brand = detect_brand brand query_lower;
          detected_category = detect_category category query_lower
      in map (\<lambda>product.
                (score_product ratio product query_lower detected_brand detected_category,
                 product)) catalog)"

text \<open>\<^verbatim>\<open>MatchResult\<close> and \<^verbatim>\<open>match\<close>. A candidate is the pair of its score and its catalog record:
  \<^verbatim>\<open>_to_matched_product(product, score, reason)\<close> stores the score as \<^verbatim>\<open>match_score\<close> and keeps
  the order. \<^verbatim>\<open>list.sort(key=..., reverse=True)\<close> is a stable sort by descending key.\<close>

record match_result =
  mr_query :: string
  mr_matches :: "(real \<times> catalog_product) list"
  mr_best_match :: "(real \<times> catalog_product) option"
  mr_total_found :: nat

definition match ::
  "similarity \<Rightarrow> catalog_product list \<Rightarrow> string \<Rightarrow> string option \<Rightarrow> string option \<Rightarrow> int
     \<Rightarrow> real \<Rightarrow> match_result" where
  "match ratio catalog query brand category max_results min_score =
     (if catalog = []
      then \<lparr> mr_query = query, mr_matches = [], mr_best_match = None, mr_total_found = 0 \<rparr>
      else
        (let scored_products =
               filter (\<lambda>(score, product). score \<ge> min_score)
                 (score_catalog ratio catalog query brand category);
             sorted_products = sort_key (\<lambda>(score, product). - score) scored_products;
             matches = py_slice_to max_results sorted_products
         in \<lparr> mr_query = query,
              mr_matches = matches,
              mr_best_match = (case matches of [] \<Rightarrow> None | m # _ \<Rightarrow> Some m),
              mr_total_found = length scored_products \<rparr>))"

subsection \<open>Message handler: data model\<close>

text \<open>\<^verbatim>\<open>ConversationState\<close>.\<close>

datatype ConversationState =
  IDLE | AWAITING_INQUIRY | PROCESSING | AWAITING_PRODUCT_SELECTION | AWAITING_QUANTITY
  | AWAITING_CONFIRMATION | AWAITING_DELIVERY_INFO | ORDER_CONFIRMED | COMPLETED

text \<open>The dictionary of an order, \<^verbatim>\<open>OrderExtractor.to_dict(order)\<close>: the entries of the order,
  and its \<^verbatim>\<open>'delivery'\<close> entry, which is \<^verbatim>\<open>None\<close>, the dictionary of the order's
  \<^verbatim>\<open>DeliveryDetails\<close>, or the dictionary that \<^verbatim>\<open>_handle_delivery_info\<close> stores
  (\<^verbatim>\<open>{"address": message, "city": "Singapore", "notes": message}\<close>).\<close>

datatype delivery_dict = FromOrder delivery_details | FromMessage string

record order_dict =
  od_order :: extracted_order
  od_delivery :: "delivery_dict option"

definition to_dict :: "extracted_order \<Rightarrow> order_dict" where
  "to_dict order = \<lparr> od_order = order, od_delivery = map_option FromOrder (delivery order) \<rparr>"

text \<open>An entry of \<^verbatim>\<open>pending_items\<close>.\<close>

record pending_item =
  pend_product :: matched_dict
  pend_quantity :: "int option"

text \<open>\<^verbatim>\<open>ConversationContext\<close>.\<close>

record conversation_context =
  c_phone_number :: string
  c_state :: ConversationState
  c_parsed_intent :: "parsed_intent option"
  c_matched_products :: "matched_dict list option"
  c_extracted_order :: "order_dict option"
  c_pending_items :: "pending_item list option"
  c_current_item_index :: int
  c_last_message_at :: "string option"
  c_created_at :: string

text \<open>The replies of the handler. A message text is named by the \<^verbatim>\<open>return\<close> statement that builds it and
  carries the values that the text interpolates; the rendering of an order summary is not
  modelled.\<close>

datatype prompt =
  Onboarding
  | ProvideOrderNumber
  | OrderSummaryNotes extracted_order
  | OrderSummaryProceed extracted_order
  | GreatChoice matched_dict
  | FoundProducts nat string
  | NotFound string
  | AddedUnits int
  | InvalidQuantity
  | DeliveryRequest
  | OrderConfirmedText string
  | ModifyPrompt
  | Cancelled
  | AddMorePrompt
  | CheckoutDelivery
  | SelectOption
  | FinalSummary "order_dict option" string

datatype reply =
  SendText prompt
  | SendInteractive prompt "(string \<times> string) list"
  | SendProducts "(string \<times> string \<times> real) list" prompt
  | OrderConfirmedAction string order_dict prompt

definition confirm_buttons :: "(string \<times> string) list" where
  "confirm_buttons = [(''confirm_order'', ''Confirm Order''), (''modify_order'', ''Modify Order''),
                      (''cancel_order'', ''Cancel'')]"

definition checkout_buttons :: "(string \<times> string) list" where
  "checkout_buttons = [(''add_more'', ''Add More Items''), (''checkout'', ''Checkout''),
                       (''cancel_order'', ''Cancel'')]"

definition final_buttons :: "(string \<times> string) list" where
  "final_buttons = [(''confirm_order'', ''Confirm Order''), (''modify_order'', ''Modify''),
                    (''cancel_order'', ''Cancel'')]"

text \<open>The components injected into \<^verbatim>\<open>MessageHandler\<close> and the clock, as functions that return
  a value or the exception they raise:
  \<^item> \<open>e_parse\<close>: \<^verbatim>\<open>intent_parser.parse(message)\<close>;
  \<^item> \<open>e_best_match\<close>: \<^verbatim>\<open>product_matcher.match(query=raw_text, brand, category, max_results=3)\<close>
    and, when \<^verbatim>\<open>result.matches\<close> is not empty, \<^verbatim>\<open>to_dict(result)['matches'][0]\<close>;
  \<^item> \<open>e_extract\<close>: \<^verbatim>\<open>order_extractor.extract(parsed_intent, matched_products, message)\<close>;
  \<^item> \<open>e_get_product_by_id\<close>: \<^verbatim>\<open>product_matcher.get_product_by_id(product_id)\<close>;
  \<^item> \<open>e_search\<close>: \<^verbatim>\<open>product_matcher.match(message, max_results=5)\<close>, its matches and
    \<^verbatim>\<open>total_found\<close>;
  \<^item> \<open>e_now\<close>: \<^verbatim>\<open>datetime.utcnow().isoformat()\<close>.\<close>

record handler_env =
  e_parse :: "string \<Rightarrow> py_error + parsed_intent"
  e_best_match :: "product_intent \<Rightarrow> py_error + matched_dict option"
  e_extract :: "parsed_intent \<Rightarrow> matched_dict list \<Rightarrow> string \<Rightarrow> py_error + extracted_order"
  e_get_product_by_id :: "string \<Rightarrow> py_error + matched_dict option"
  e_search :: "string \<Rightarrow> py_error + (matched_dict list \<times> nat)"
  e_now :: string

subsection \<open>Message handler: operations\<close>

text \<open>\<^verbatim>\<open>message.replace(old, "")\<close>: every occurrence of \<open>old\<close>, left to right, is removed.\<close>

function remove_all :: "string \<Rightarrow> string \<Rightarrow> string" where
  "remove_all old [] = []"
| "remove_all old (c # cs) =
     (if old \<noteq> [] \<and> prefix old (c # cs)
      then remove_all old (drop (length old) (c # cs))
      else c # remove_all old cs)"
  by pat_completeness auto
termination
  by (relation "measure (\<lambda>(old, s). length s)") auto

text \<open>\<^verbatim>\<open>int(text)\<close> on a stripped text: an optional sign, then digits, where single underscores
  may separate digits; \<^verbatim>\<open>ValueError\<close> otherwise.\<close>

definition is_underscore :: "char \<Rightarrow> bool" where
  "is_underscore c = (of_char c = (95::nat))"

fun digits_ok :: "string \<Rightarrow> bool" where
  "digits_ok [] = False"
| "digits_ok [c] = is_digit c"
| "digits_ok (c # d # cs) =
     (is_digit c \<and> (if is_underscore d then cs \<noteq> [] \<and> digits_ok cs else digits_ok (d # cs)))"

definition int_of_text :: "string \<Rightarrow> py_error + int" where
  "int_of_text text =
     (let t = strip text;
          negative = (t \<noteq> [] \<and> of_char (hd t) = (45::nat));
          signed = (t \<noteq> [] \<and> (of_char (hd t) = (45::nat) \<or> of_char (hd t) = (43::nat)));
          body = (if signed then tl t else t)
      in if digits_ok body
         then Inr ((if negative then - 1 else 1) * py_int (filter is_digit body))
         else Inl ValueError)"

text \<open>The matching loop of \<^verbatim>\<open>_handle_new_inquiry\<close>: the best match of each mention that has
  one, in order; the first exception ends it.\<close>

fun match_all ::
  "(product_intent \<Rightarrow> py_error + matched_dict option) \<Rightarrow> product_intent list
     \<Rightarrow> py_error + matched_dict list" where
  "match_all best [] = Inr []"
| "match_all best (product_intent # rest) =
     (case best product_intent of
        Inl e \<Rightarrow> Inl e
      | Inr found \<Rightarrow>
          (case match_all best rest of
             Inl e \<Rightarrow> Inl e
           | Inr others \<Rightarrow>
               Inr (case found of None \<Rightarrow> others | Some m \<Rightarrow> m # others)))"

text \<open>\<^verbatim>\<open>_handle_new_inquiry\<close>. The context is a mutable object: what was assigned before an
  exception stays assigned, so the context is returned beside the response or exception.\<close>

definition handle_new_inquiry ::
  "handler_env \<Rightarrow> conversation_context \<Rightarrow> string \<Rightarrow> conversation_context \<times> (py_error + reply)" where
  "handle_new_inquiry env context message =
     (let c1 = context\<lparr>c_state := PROCESSING\<rparr>
      in case e_parse env message of
           Inl e \<Rightarrow> (c1, Inl e)
         | Inr parsed \<Rightarrow>
             (let c2 = c1\<lparr>c_parsed_intent := Some parsed\<rparr>
              in if intent_type parsed = UNCLEAR
                 then (c2\<lparr>c_state := AWAITING_INQUIRY\<rparr>, Inr (SendText Onboarding))
                 else if intent_type parsed = ORDER_STATUS
                 then (c2, Inr (SendText ProvideOrderNumber))
                 else
                   (case match_all (e_best_match env) (products parsed) of
                      Inl e \<Rightarrow> (c2, Inl e)
                    | Inr matched_products \<Rightarrow>
                        (let c3 = c2\<lparr>c_matched_products := Some matched_products\<rparr>
                         in case e_extract env parsed matched_products message of
                              Inl e \<Rightarrow> (c3, Inl e)
                            | Inr order \<Rightarrow>
                                (let c4 = c3\<lparr>c_extracted_order := Some (to_dict order)\<rparr>
                                 in if needs_confirmation order \<and> confirmation_notes order \<noteq> []
                                    then (c4\<lparr>c_state := AWAITING_CONFIRMATION\<rparr>,
                                          Inr (SendInteractive (OrderSummaryNotes order)
                                                 confirm_buttons))
                                    else (c4\<lparr>c_state := AWAITING_CONFIRMATION\<rparr>,
                                          Inr (SendInteractive (OrderSummaryProceed order)
                                                 confirm_buttons)))))))"

text \<open>\<^verbatim>\<open>_handle_product_selection\<close>.\<close>

definition search_products ::
  "handler_env \<Rightarrow> conversation_context \<Rightarrow> string \<Rightarrow> conversation_context \<times> (py_error + reply)" where
  "search_products env context message =
     (case e_search env message of
        Inl e \<Rightarrow> (context, Inl e)
      | Inr (matches, total_found) \<Rightarrow>
          if matches \<noteq> []
          then (context,
                Inr (SendProducts
                       (map (\<lambda>m. (md_product_id m, md_clean_name m, md_price m)) matches)
                       (FoundProducts total_found message)))
          else (context, Inr (SendText (NotFound message))))"

definition handle_product_selection ::
  "handler_env \<Rightarrow> conversation_context \<Rightarrow> string \<Rightarrow> conversation_context \<times> (py_error + reply)" where
  "handle_product_selection env context message =
     (if prefix ''product_'' message
      then (case e_get_product_by_id env (remove_all ''product_'' message) of
              Inl e \<Rightarrow> (context, Inl e)
            | Inr (Some product) \<Rightarrow>
                (context\<lparr>c_state := AWAITING_QUANTITY,
                         c_pending_items :=
                           Some ((case c_pending_items context of None \<Rightarrow> [] | Some ps \<Rightarrow> ps)
                                 @ [\<lparr> pend_product = product, pend_quantity = None \<rparr>])\<rparr>,
                 Inr (SendText (GreatChoice product)))
            | Inr None \<Rightarrow> search_products env context message)
      else search_products env context message)"

text \<open>\<^verbatim>\<open>_handle_quantity_input\<close>: the \<^verbatim>\<open>ValueError\<close> of \<^verbatim>\<open>int\<close> or of a quantity that is not
  positive is caught and answered by the re-prompt.\<close>

definition handle_quantity_input ::
  "handler_env \<Rightarrow> conversation_context \<Rightarrow> string \<Rightarrow> conversation_context \<times> (py_error + reply)" where
  "handle_quantity_input env context message =
     (case int_of_text (strip message) of
        Inl e \<Rightarrow> (context, Inr (SendText InvalidQuantity))
      | Inr quantity \<Rightarrow>
          if quantity \<le> 0 then (context, Inr (SendText InvalidQuantity))
          else
            (context\<lparr>c_pending_items :=
                       (case c_pending_items context of
                          None \<Rightarrow> None
                        | Some ps \<Rightarrow>
                            if ps = [] then Some ps
                            else Some (butlast ps @ [(last ps)\<lparr>pend_quantity := Some quantity\<rparr>])),
                     c_state := AWAITING_CONFIRMATION\<rparr>,
             Inr (SendInteractive (AddedUnits quantity) checkout_buttons)))"

text \<open>\<^verbatim>\<open>_handle_confirmation\<close>. \<^verbatim>\<open>context.extracted_order.get('delivery')\<close> raises
  \<^verbatim>\<open>AttributeError\<close> when there is no extracted order.\<close>

definition handle_confirmation ::
  "handler_env \<Rightarrow> conversation_context \<Rightarrow> string \<Rightarrow> conversation_context \<times> (py_error + reply)" where
  "handle_confirmation env context message =
     (let message_lower = strip (lower message)
      in if message_lower \<in> set [''confirm_order'', ''yes'', ''confirm'', ''proceed'']
         then (case c_extracted_order context of
                 None \<Rightarrow> (context, Inl AttributeError)
               | Some order \<Rightarrow>
                   if od_delivery order = None
                   then (context\<lparr>c_state := AWAITING_DELIVERY_INFO\<rparr>,
                         Inr (SendText DeliveryRequest))
                   else (context\<lparr>c_state := ORDER_CONFIRMED\<rparr>,
                         Inr (OrderConfirmedAction (order_id (od_order order)) order
                                (OrderConfirmedText (order_id (od_order order))))))
         else if message_lower \<in> set [''modify_order'', ''modify'', ''change'']
         then (context\<lparr>c_state := AWAITING_PRODUCT_SELECTION\<rparr>, Inr (SendText ModifyPrompt))
         else if message_lower \<in> set [''cancel_order'', ''cancel'', ''no'']
         then (context\<lparr>c_state := IDLE, c_extracted_order := None,
                        c_matched_products := None\<rparr>,
               Inr (SendText Cancelled))
         else if message_lower \<in> set [''add_more'']
         then (context\<lparr>c_state := AWAITING_PRODUCT_SELECTION\<rparr>, Inr (SendText AddMorePrompt))
         else if message_lower \<in> set [''checkout'']
         then (context\<lparr>c_state := AWAITING_DELIVERY_INFO\<rparr>, Inr (SendText CheckoutDelivery))
         else (context, Inr (SendInteractive SelectOption confirm_buttons)))"

text \<open>\<^verbatim>\<open>_handle_delivery_info\<close>. \<^verbatim>\<open>_build_order_summary_from_dict(None)\<close> raises
  \<^verbatim>\<open>AttributeError\<close>, after the state has been set.\<close>

definition handle_delivery_info ::
  "handler_env \<Rightarrow> conversation_context \<Rightarrow> string \<Rightarrow> conversation_context \<times> (py_error + reply)" where
  "handle_delivery_info env context message =
     (let c1 = context\<lparr>c_extracted_order :=
                         map_option (\<lambda>order. order\<lparr>od_delivery := Some (FromMessage message)\<rparr>)
                           (c_extracted_order context)\<rparr>;
          c2 = c1\<lparr>c_state := AWAITING_CONFIRMATION\<rparr>
      in case c_extracted_order c2 of
           None \<Rightarrow> (c2, Inl AttributeError)
         | Some order \<Rightarrow>
             (c2, Inr (SendInteractive (FinalSummary (Some order) message) final_buttons)))"

text \<open>The body of \<^verbatim>\<open>handle_message\<close> on the context of the sender.\<close>

definition handle_context ::
  "handler_env \<Rightarrow> conversation_context \<Rightarrow> string \<Rightarrow> conversation_context \<times> (py_error + reply)" where
  "handle_context env context0 message_text =
     (let context = context0\<lparr>c_last_message_at := Some (e_now env)\<rparr>
      in if c_state context = IDLE \<or> c_state context = AWAITING_INQUIRY
         then handle_new_inquiry env context message_text
         else if c_state context = AWAITING_PRODUCT_SELECTION
         then handle_product_selection env context message_text
         else if c_state context = AWAITING_QUANTITY
         then handle_quantity_input env context message_text
         else if c_state context = AWAITING_CONFIRMATION
         then handle_confirmation env context message_text
         else if c_state context = AWAITING_DELIVERY_INFO
         then handle_delivery_info env context message_text
         else handle_new_inquiry env context message_text)"

text \<open>\<^verbatim>\<open>_get_or_create_context\<close>, \<^verbatim>\<open>handle_message\<close> and \<^verbatim>\<open>reset_context\<close> on the dictionary of
  conversations.\<close>

definition new_context :: "handler_env \<Rightarrow> string \<Rightarrow> conversation_context" where
  "new_context env phone_number =
     \<lparr> c_phone_number = phone_number, c_state = IDLE, c_parsed_intent = None,
       c_matched_products = None, c_extracted_order = None, c_pending_items = None,
       c_current_item_index = 0, c_last_message_at = None, c_created_at = e_now env \<rparr>"

definition get_or_create_context ::
  "handler_env \<Rightarrow> (string \<rightharpoonup> conversation_context) \<Rightarrow> string \<Rightarrow> conversation_context" where
  "get_or_create_context env conversations phone_number =
     (case conversations phone_number of
        None \<Rightarrow> new_context env phone_number
      | Some context \<Rightarrow> context)"

definition handle_message ::
  "handler_env \<Rightarrow> (string \<rightharpoonup> conversation_context) \<Rightarrow> string \<Rightarrow> string
     \<Rightarrow> (string \<rightharpoonup> conversation_context) \<times> (py_error + reply)" where
  "handle_message env conversations phone_number message_text =
     (let (context, result) =
            handle_context env (get_or_create_context env conversations phone_number)
              message_text
      in (conversations(phone_number \<mapsto> context), result))"

definition reset_context :: "(string \<rightharpoonup> conversation_context) \<Rightarrow> string \<Rightarrow> (string \<rightharpoonup> conversation_context)" where
  "reset_context conversations phone_number = conversations(phone_number := None)"

text \<open>What happens to a handler: a message from a sender, handled with the components and the
  clock of that moment, or the reset of a sender. A run starts with no conversation.\<close>

datatype event = Message handler_env string string | Reset string

fun apply_event :: "(string \<rightharpoonup> conversation_context) \<Rightarrow> event \<Rightarrow> (string \<rightharpoonup> conversation_context)" where
  "apply_event conversations (Message env phone_number message_text) =
     fst (handle_message env conversations phone_number message_text)"
| "apply_event conversations (Reset phone_number) = reset_context conversations phone_number"

definition run :: "event list \<Rightarrow> (string \<rightharpoonup> conversation_context)" where
  "run events = foldl apply_event Map.empty events"

subsection \<open>Auxiliary predicates and concrete inputs\<close>



text \<open>Concrete inputs on which the theorems below are evaluated: a product mention with a
  given quantity, a parsed intent with given mentions and clarification flag (delivery to
  Bedok, confidence 0.5), a matched catalog entry with a given price and score, and the
  extractor with its default tax rate and free-shipping threshold.\<close>

definition ex_mention :: "int option \<Rightarrow> product_intent" where
  "ex_mention q =
     \<lparr> pi_raw_text = ''acorn ceiling fan'', pi_product_name = None, pi_quantity = q,
       pi_brand = Some ''Acorn'', pi_category = Some ''Ceiling Fans'', pi_confidence = 0.6 \<rparr>"

definition ex_intent :: "product_intent list \<Rightarrow> bool \<Rightarrow> parsed_intent" where
  "ex_intent mentions clarify =
     \<lparr> intent_type = ORDER_INQUIRY, products = mentions,
       p_delivery = Some \<lparr> di_address = Some ''Bedok'', di_date = None, di_urgency = None,
                            di_notes = None \<rparr>,
       p_customer_name = None, p_contact_info = None, p_raw_message = ''acorn ceiling fan'',
       p_confidence_score = 0.5, p_needs_clarification = clarify,
       p_clarification_questions = [], p_summary = ''Request for Ceiling Fans from Acorn'' \<rparr>"

definition ex_matched :: "real \<Rightarrow> real \<Rightarrow> matched_dict" where
  "ex_matched price score =
     \<lparr> md_product_id = ''P1'', md_name = ''Acorn DC Ceiling Fan'',
       md_clean_name = ''Acorn DC Ceiling Fan'', md_price = price, md_brand = Some ''Acorn'',
       md_category = Some ''Ceiling Fans'', md_match_score = score \<rparr>"

definition ex_extractor :: extractor where
  "ex_extractor = init_extractor None None"


text \<open>A stand-in for \<^verbatim>\<open>SequenceMatcher(None, a, b).ratio()\<close> on the concrete inputs below: it is
  the value of \<^verbatim>\<open>difflib\<close> for two equal strings (1.0) and for two strings without a common
  character (0.0), and the concrete queries and names are of the second kind. The general
  theorems hold for every similarity function.\<close>

definition ex_ratio :: similarity where
  "ex_ratio a b = (if a = b then 1 else 0)"

text \<open>A catalog record with the given name, and a catalog of four.\<close>

definition ex_product :: "string \<Rightarrow> catalog_product" where
  "ex_product n = \<lparr> cp_item_id = Some n, cp_name = Some n, cp_clean_name = Some n \<rparr>"

definition ex_catalog :: "catalog_product list" where
  "ex_catalog = [ex_product ''Acorn Hood'', ex_product ''Spin Fan'', ex_product ''Acorn Fan'',
                 ex_product ''Acorn Chimney'']"

text \<open>The invariant of a session: outside the states of a new inquiry there is an extracted
  order, and in \<open>ORDER_CONFIRMED\<close> that order has a delivery entry.\<close>

definition session_inv :: "conversation_context \<Rightarrow> bool" where
  "session_inv ctx \<longleftrightarrow>
     (c_state ctx \<in> set [AWAITING_PRODUCT_SELECTION, AWAITING_QUANTITY, AWAITING_CONFIRMATION,
                          AWAITING_DELIVERY_INFO, ORDER_CONFIRMED]
        \<longrightarrow> c_extracted_order ctx \<noteq> None)
     \<and> (c_state ctx = ORDER_CONFIRMED
        \<longrightarrow> (case c_extracted_order ctx of
               None \<Rightarrow> False
             | Some order \<Rightarrow> od_delivery order \<noteq> None))"

text \<open>A handler without completion service (the parser falls back to pattern matching), with
  a matcher that finds the Acorn fan at 199.00 for every mention and nothing for a search,
  the default extractor, and a fixed order id and clock; and the session of a sender after
  a first message.\<close>

definition ex_env :: handler_env where
  "ex_env =
     \<lparr> e_parse = parse None,
       e_best_match = (\<lambda>mention. Inr (Some (ex_matched 199 0.9))),
       e_extract = extract_order ex_extractor ''UB-20260131-ABC123'' ''2026-01-31T00:00:00'',
       e_get_product_by_id = (\<lambda>product_id. Inr None),
       e_search = (\<lambda>query. Inr ([], 0)),
       e_now = ''2026-01-31T00:00:00'' \<rparr>"

definition ex_session :: conversation_context where
  "ex_session =
     fst (handle_context ex_env (new_context ex_env ''6591234567'') ''10 acorn fans to bedok'')"

section \<open>Verified properties\<close>

lemmas str_defs = lower_def lower_char_def strip_def is_space_def char_of_def bit_0


lemmas ex_defs = ex_mention_def ex_intent_def ex_matched_def ex_extractor_def init_extractor_def
  DEFAULT_TAX_RATE_def FREE_SHIPPING_THRESHOLD_def DEFAULT_SHIPPING_def

lemmas order_defs = extract_order_def extract_items_def extract_item_def matched_item_def
  unmatched_item_def line_quantity_def extract_delivery_def calculate_summary_def
  calculate_confidence_def check_confirmation_needs_def apply_discounts_def apply_discount_def
  find_best_match_def

subsection \<open>Rounding to cents\<close>









subsection \<open>Order totals\<close>





lemma extract_order_items:
  "extract_order self i n parsed matched raw = Inr order \<Longrightarrow>
     extract_items parsed matched = Inr (items order)"
  unfolding extract_order_def Let_def by (auto split: sum.splits prod.splits)




subsection \<open>Order confidence\<close>




subsection \<open>Confirmation requirement\<close>

text \<open>
  Claim C4: for every parsed intent, line list and delivery value, the needs_confirmation
  flag is true if and only if at least one of the five trigger conditions holds: some line
  has product_id UNMATCHED; some non-UNMATCHED line has match_confidence below 0.7; some
  line has quantity at most 0; delivery is absent; the parsed intent's needs_clarification
  is true.
\<close>

theorem needs_confirmation_iff:
  "fst (check_confirmation_needs parsed its deliv) \<longleftrightarrow>
     (\<exists>item\<in>set its. oi_product_id item = ''UNMATCHED'')
   \<or> (\<exists>item\<in>set its. oi_product_id item \<noteq> ''UNMATCHED'' \<and> oi_match_confidence item < 0.7)
   \<or> (\<exists>item\<in>set its. oi_quantity item \<le> 0)
   \<or> deliv = None
   \<or> p_needs_clarification parsed"
  unfolding check_confirmation_needs_def Let_def
  by (auto simp: filter_empty_conv split: prod.splits if_splits)

text \<open>With all five conditions false the flag is false; each condition alone makes it true.\<close>

theorem needs_confirmation_iff_witness:
  "\<not> fst (check_confirmation_needs (ex_intent [] False)
            [matched_item (ex_mention (Some 2)) (ex_matched 199 0.9)]
            (extract_delivery (ex_intent [] False)))
   \<and> fst (check_confirmation_needs (ex_intent [] False)
            [unmatched_item (ex_mention (Some 2))] (extract_delivery (ex_intent [] False)))
   \<and> fst (check_confirmation_needs (ex_intent [] False)
            [matched_item (ex_mention (Some 2)) (ex_matched 199 0.6)]
            (extract_delivery (ex_intent [] False)))
   \<and> fst (check_confirmation_needs (ex_intent [] False)
            [matched_item (ex_mention (Some (- 2))) (ex_matched 199 0.9)]
            (extract_delivery (ex_intent [] False)))
   \<and> fst (check_confirmation_needs (ex_intent [] False)
            [matched_item (ex_mention (Some 2)) (ex_matched 199 0.9)] None)
   \<and> fst (check_confirmation_needs (ex_intent [] True)
            [matched_item (ex_mention (Some 2)) (ex_matched 199 0.9)]
            (extract_delivery (ex_intent [] True)))"
  using
    needs_confirmation_iff [of "ex_intent [] False"
      "[matched_item (ex_mention (Some 2)) (ex_matched 199 0.9)]"
      "extract_delivery (ex_intent [] False)"]
    needs_confirmation_iff [of "ex_intent [] False"
      "[unmatched_item (ex_mention (Some 2))]" "extract_delivery (ex_intent [] False)"]
    needs_confirmation_iff [of "ex_intent [] False"
      "[matched_item (ex_mention (Some 2)) (ex_matched 199 0.6)]"
      "extract_delivery (ex_intent [] False)"]
    needs_confirmation_iff [of "ex_intent [] False"
      "[matched_item (ex_mention (Some (- 2))) (ex_matched 199 0.9)]"
      "extract_delivery (ex_intent [] False)"]
    needs_confirmation_iff [of "ex_intent [] False"
      "[matched_item (ex_mention (Some 2)) (ex_matched 199 0.9)]" None]
    needs_confirmation_iff [of "ex_intent [] True"
      "[matched_item (ex_mention (Some 2)) (ex_matched 199 0.9)]"
      "extract_delivery (ex_intent [] True)"]
  by (simp add: matched_item_def unmatched_item_def line_quantity_def extract_delivery_def
      ex_defs Let_def)

subsection \<open>Line quantities\<close>

lemma line_quantity_pos:
  "(\<forall>q. pi_quantity m = Some q \<longrightarrow> 0 \<le> q) \<Longrightarrow> 1 \<le> line_quantity m"
  by (cases "pi_quantity m") (auto simp: line_quantity_def)

lemma extract_item_quantity:
  "extract_item matched i intent = Inr item \<Longrightarrow> oi_quantity item = line_quantity intent"
  unfolding extract_item_def matched_item_def unmatched_item_def Let_def
  by (auto split: if_splits sum.splits option.splits)

lemma extract_items_from_quantity:
  "extract_items_from matched i intents = Inr its \<Longrightarrow>
     map oi_quantity its = map line_quantity intents"
  by (induction intents arbitrary: i its)
     (auto split: sum.splits dest: extract_item_quantity)

text \<open>
  Claim C10, as stated: every order line produced by \<^verbatim>\<open>extract\<close> has quantity at least 1,
  so the "quantity at most 0" confirmation trigger never fires on a fresh order. It fails
  for a mention with a negative quantity: quantity -5 is kept as it is (only \<^verbatim>\<open>None\<close> and 0
  are replaced by 1), and the note of the trigger is among the confirmation notes.
\<close>

theorem extract_quantity_negative_counterexample:
  "(case extract_order ex_extractor ''UB-20260131-ABC123'' ''2026-01-31T00:00:00''
           (ex_intent [ex_mention (Some (- 5))] False) [] ''acorn ceiling fan'' of
      Inl e \<Rightarrow> False
    | Inr order \<Rightarrow>
        map oi_quantity (items order) = [- 5]
        \<and> needs_confirmation order
        \<and> confirmation_notes order =
            [''1 product(s) could not be matched - manual selection required'',
             ''Some items are missing quantities''])"
  by (simp add: order_defs ex_defs str_defs Let_def)

text \<open>
  Claim C10, amended: in every order produced by \<^verbatim>\<open>extract\<close>, the line of a mention has
  quantity 1 when the mention's quantity is null or 0 and the mention's quantity otherwise;
  so when no mention has a negative quantity every line has quantity at least 1 (and the
  "quantity at most 0" trigger does not fire).
\<close>

theorem extract_quantity_at_least_one:
  assumes "extract_order self new_id now parsed matched raw = Inr order"
  shows "map oi_quantity (items order) =
           map (\<lambda>m. case pi_quantity m of None \<Rightarrow> 1 | Some q \<Rightarrow> if q = 0 then 1 else q)
             (products parsed)
       \<and> ((\<forall>m\<in>set (products parsed). \<forall>q. pi_quantity m = Some q \<longrightarrow> 0 \<le> q) \<longrightarrow>
           (\<forall>item\<in>set (items order). 1 \<le> oi_quantity item))"
proof -
  have q: "map oi_quantity (items order) = map line_quantity (products parsed)"
    using extract_order_items[OF assms] extract_items_from_quantity
    unfolding extract_items_def by blast
  have "1 \<le> oi_quantity item"
    if nn: "\<forall>m\<in>set (products parsed). \<forall>q. pi_quantity m = Some q \<longrightarrow> 0 \<le> q"
      and "item \<in> set (items order)" for item
  proof -
    have "oi_quantity item \<in> set (map line_quantity (products parsed))"
      using q that(2) by (metis image_eqI list.set_map)
    then obtain m where m: "m \<in> set (products parsed)" "oi_quantity item = line_quantity m"
      by auto
    show ?thesis using nn m line_quantity_pos[of m] by simp
  qed
  moreover have "line_quantity =
      (\<lambda>m. case pi_quantity m of None \<Rightarrow> 1 | Some q \<Rightarrow> if q = 0 then 1 else q)"
    by (rule ext) (simp add: line_quantity_def)
  ultimately show ?thesis using q by simp
qed

theorem extract_quantity_at_least_one_witness:
  "map oi_quantity
     (items (projr (extract_order ex_extractor ''UB-20260131-ABC123'' ''2026-01-31T00:00:00''
        (ex_intent [ex_mention None, ex_mention (Some 0), ex_mention (Some 7)] False)
        [ex_matched 199 0.9] ''acorn ceiling fan''))) = [1, 1, 7]"
  using extract_quantity_at_least_one
    [of ex_extractor "''UB-20260131-ABC123''" "''2026-01-31T00:00:00''"
        "ex_intent [ex_mention None, ex_mention (Some 0), ex_mention (Some 7)] False"
        "[ex_matched 199 0.9]" "''acorn ceiling fan''"
        "projr (extract_order ex_extractor ''UB-20260131-ABC123'' ''2026-01-31T00:00:00''
        (ex_intent [ex_mention None, ex_mention (Some 0), ex_mention (Some 7)] False)
        [ex_matched 199 0.9] ''acorn ceiling fan'')"]
  by (simp add: order_defs ex_defs str_defs Let_def)

subsection \<open>Intent parser\<close>

lemmas parser_defs = parse_def call_llm_def fallback_parse_def parse_response_def
  parse_product_def pattern_match_def IntentType_of_def empty_intent_def match_quantity_def
  quantity_match_def generate_clarification_questions_def any_in_def brands_def
  product_keywords_def sg_areas_def title_def upper_char_def is_alpha_def is_digit_def
  py_int_def digit_value_def

















subsection \<open>Product matcher: scoring\<close>

lemmas score_defs = score_product_def score_product_uncapped_def py_split_def any_in_def
  CATEGORY_KEYWORDS_def ex_ratio_def ex_product_def lower_def lower_char_def is_space_def
  char_of_def bit_0 Let_def

lemma score_product_uncapped_nonneg:
  "0 \<le> score_product_uncapped ratio product query brand category"
  unfolding score_product_uncapped_def Let_def
  by (auto split: option.splits intro!: add_nonneg_nonneg)

lemma score_product_bounds:
  "0 \<le> score_product ratio product query brand category"
  "score_product ratio product query brand category \<le> 1"
  unfolding score_product_def using score_product_uncapped_nonneg by simp_all

lemma brand_bonus:
  assumes "b \<noteq> []"
    and "contains (lower (case cp_name product of None \<Rightarrow> [] | Some n \<Rightarrow> n)) (lower b)"
  shows "score_product_uncapped ratio product query (Some b) category
        = score_product_uncapped ratio product query None category + 0.3"
  using assms unfolding score_product_uncapped_def Let_def
  by (cases category) simp_all

lemma category_bonus:
  assumes "c \<noteq> []"
    and "\<exists>kw\<in>set (case map_of CATEGORY_KEYWORDS c of None \<Rightarrow> [] | Some kws \<Rightarrow> kws).
            contains (lower (case cp_name product of None \<Rightarrow> [] | Some n \<Rightarrow> n)) kw"
  shows "score_product_uncapped ratio product query brand (Some c)
        = score_product_uncapped ratio product query brand None + 0.2"
proof -
  have "any_in (case map_of CATEGORY_KEYWORDS c of None \<Rightarrow> [] | Some kws \<Rightarrow> kws)
          (lower (case cp_name product of None \<Rightarrow> [] | Some n \<Rightarrow> n))"
    using assms(2) unfolding any_in_def list_ex_iff .
  then show ?thesis using assms(1) unfolding score_product_uncapped_def Let_def
    by simp
qed

text \<open>
  Claim C1, as stated: a brand hint whose lower-cased form is a substring of the record's
  raw name adds exactly 0.2 to the score, and a category hint one of whose keywords the raw
  name contains adds exactly 0.1 (before the cap at 1.0). It fails: for the record
  "Acorn DC Ceiling Fan" and the query "zzz" (no name similarity, no common word) the brand
  hint "Acorn" raises the score by 0.3 and the category hint "Ceiling Fans" by 0.2.
\<close>

theorem score_bonus_counterexample:
  "score_product_uncapped ex_ratio (ex_product ''Acorn DC Ceiling Fan'') ''zzz''
       (Some ''Acorn'') None
     - score_product_uncapped ex_ratio (ex_product ''Acorn DC Ceiling Fan'') ''zzz'' None None
     = 0.3
   \<and> score_product_uncapped ex_ratio (ex_product ''Acorn DC Ceiling Fan'') ''zzz''
       None (Some ''Ceiling Fans'')
     - score_product_uncapped ex_ratio (ex_product ''Acorn DC Ceiling Fan'') ''zzz'' None None
     = 0.2"
  by (simp add: score_defs)

text \<open>
  Claim C1, amended: in \<^verbatim>\<open>_score_product\<close>, for every catalog record, a non-empty brand hint
  whose lower-cased form is a substring of the record's lower-cased raw name adds exactly
  0.3 to the score, and a non-empty category hint for which the lower-cased raw name
  contains a keyword of that category's keyword list adds exactly 0.2; the sum is then
  capped at 1.0.
\<close>

theorem score_bonus:
  "(b \<noteq> [] \<and> contains (lower (case cp_name product of None \<Rightarrow> [] | Some n \<Rightarrow> n)) (lower b)
      \<longrightarrow> score_product_uncapped ratio product query (Some b) category
            = score_product_uncapped ratio product query None category + 0.3)
   \<and> (c \<noteq> []
       \<and> (\<exists>kw\<in>set (case map_of CATEGORY_KEYWORDS c of None \<Rightarrow> [] | Some kws \<Rightarrow> kws).
             contains (lower (case cp_name product of None \<Rightarrow> [] | Some n \<Rightarrow> n)) kw)
      \<longrightarrow> score_product_uncapped ratio product query brand (Some c)
            = score_product_uncapped ratio product query brand None + 0.2)
   \<and> score_product ratio product query brand category
        = min (score_product_uncapped ratio product query brand category) 1"
  using brand_bonus[of b product ratio query category]
    category_bonus[of c product ratio query brand]
  by (simp add: score_product_def)

theorem score_bonus_witness:
  "score_product_uncapped ex_ratio (ex_product ''Acorn DC Ceiling Fan'') ''zzz''
       (Some ''Acorn'') (Some ''Ceiling Fans'') = 0.5
   \<and> score_product ex_ratio (ex_product ''Acorn DC Ceiling Fan'') ''zzz''
       (Some ''Acorn'') (Some ''Ceiling Fans'') = 0.5"
  using score_bonus [of "''Acorn''" "ex_product ''Acorn DC Ceiling Fan''" ex_ratio "''zzz''"
      "Some ''Ceiling Fans''" "''Ceiling Fans''" "Some ''Acorn''"]
  by (simp add: score_defs)

subsection \<open>Product matcher: ranking\<close>

lemma py_slice_to_prefix: "prefix (py_slice_to n xs) xs"
  unfolding py_slice_to_def by (simp add: take_is_prefix)

lemma py_slice_to_length: "0 \<le> n \<Longrightarrow> length (py_slice_to n xs) \<le> nat n"
  unfolding py_slice_to_def by simp

lemma sorted_wrt_prefix: "prefix xs ys \<Longrightarrow> sorted_wrt P ys \<Longrightarrow> sorted_wrt P xs"
  by (auto simp: prefix_def sorted_wrt_append)

lemma score_catalog_scores:
  "(s, p) \<in> set (score_catalog ratio catalog query brand category) \<Longrightarrow>
     0 \<le> s \<and> s \<le> 1 \<and> p \<in> set catalog"
  unfolding score_catalog_def Let_def by (auto simp: score_product_bounds)

lemma matches_eq:
  "mr_matches (match ratio catalog query brand category max_results min_score) =
     py_slice_to max_results
       (sort_key (\<lambda>(score, product). - score)
          (filter (\<lambda>(score, product). score \<ge> min_score)
             (score_catalog ratio catalog query brand category)))"
  unfolding match_def Let_def
  by (simp add: score_catalog_def py_slice_to_def)

text \<open>The concrete catalog, scored and ranked for the query "zzz" with the hints "Acorn"
  and "Ceiling Fans".\<close>

lemma ex_scores:
  "score_product ex_ratio (ex_product ''Acorn Hood'') ''zzz'' (Some ''Acorn'')
     (Some ''Ceiling Fans'') = 0.3"
  "score_product ex_ratio (ex_product ''Spin Fan'') ''zzz'' (Some ''Acorn'')
     (Some ''Ceiling Fans'') = 0.2"
  "score_product ex_ratio (ex_product ''Acorn Fan'') ''zzz'' (Some ''Acorn'')
     (Some ''Ceiling Fans'') = 0.5"
  "score_product ex_ratio (ex_product ''Acorn Chimney'') ''zzz'' (Some ''Acorn'')
     (Some ''Ceiling Fans'') = 0.3"
  by (simp_all add: score_defs)

lemma ex_score_catalog:
  "score_catalog ex_ratio ex_catalog ''zzz'' (Some ''Acorn'') (Some ''Ceiling Fans'') =
     [(0.3, ex_product ''Acorn Hood''), (0.2, ex_product ''Spin Fan''),
      (0.5, ex_product ''Acorn Fan''), (0.3, ex_product ''Acorn Chimney'')]"
proof -
  have q: "strip (lower ''zzz'') = ''zzz''"
    by (simp add: strip_def lower_def lower_char_def is_space_def)
  show ?thesis
    unfolding score_catalog_def Let_def q detect_brand_def detect_category_def ex_catalog_def
    by (simp add: ex_scores)
qed

lemma ex_matches:
  "mr_matches (match ex_ratio ex_catalog ''zzz'' (Some ''Acorn'') (Some ''Ceiling Fans'') n 0.3)
   = py_slice_to n [(0.5, ex_product ''Acorn Fan''), (0.3, ex_product ''Acorn Hood''),
                    (0.3, ex_product ''Acorn Chimney'')]"
proof -
  have "ex_catalog \<noteq> []" by (simp add: ex_catalog_def)
  then show ?thesis unfolding match_def Let_def ex_score_catalog by simp
qed

text \<open>
  Claim C9, as stated: every returned candidate has score in [0,1] and none below
  min_score, the list is sorted non-increasing by score with ties in catalog order, and its
  length is at most max_results. The last part fails for a negative \<^verbatim>\<open>max_results\<close> (the
  search endpoint passes the request's integer unchecked): \<^verbatim>\<open>scored_products[:-1]\<close> drops
  the last of three candidates and returns two.
\<close>

theorem match_length_counterexample:
  "\<not> int (length (mr_matches
        (match ex_ratio ex_catalog ''zzz'' (Some ''Acorn'') (Some ''Ceiling Fans'') (- 1) 0.3)))
      \<le> - 1"
  by (simp add: ex_matches py_slice_to_def)

text \<open>
  Claim C9, amended: for every catalog and query, every candidate returned by \<^verbatim>\<open>match\<close> is
  a catalog record with score in [0,1] and not below min_score; the returned list is sorted
  non-increasing by score, with ties kept in catalog order (for every score, the returned
  candidates with that score are the first ones, in order, of the catalog records with that
  score); and when max_results is not negative its length is at most max_results.
\<close>

theorem match_ranked:
  "(\<forall>(s, p) \<in> set (mr_matches (match ratio catalog query brand category max_results min_score)).
      0 \<le> s \<and> s \<le> 1 \<and> min_score \<le> s \<and> p \<in> set catalog)
   \<and> sorted_wrt (\<lambda>a b. fst a \<ge> fst b)
        (mr_matches (match ratio catalog query brand category max_results min_score))
   \<and> (\<forall>k. prefix
          (filter (\<lambda>c. fst c = k)
             (mr_matches (match ratio catalog query brand category max_results min_score)))
          (filter (\<lambda>c. fst c = k) (score_catalog ratio catalog query brand category)))
   \<and> (0 \<le> max_results \<longrightarrow>
        int (length (mr_matches (match ratio catalog query brand category max_results min_score)))
          \<le> max_results)"
proof -
  define scored where "scored = score_catalog ratio catalog query brand category"
  define kept where "kept = filter (\<lambda>(score, product). score \<ge> min_score) scored"
  define srt where "srt = sort_key (\<lambda>(score, product). - score) kept"
  define r where
    "r = mr_matches (match ratio catalog query brand category max_results min_score)"
  have r: "r = py_slice_to max_results srt"
    unfolding r_def srt_def kept_def scored_def by (rule matches_eq)
  have pre: "prefix r srt" unfolding r by (rule py_slice_to_prefix)
  then have sub: "set r \<subseteq> set kept"
    using set_mono_prefix[OF pre] by (simp add: srt_def)
  have 1: "\<forall>(s, p) \<in> set r. 0 \<le> s \<and> s \<le> 1 \<and> min_score \<le> s \<and> p \<in> set catalog"
    using sub score_catalog_scores[of _ _ ratio catalog query brand category]
    unfolding kept_def scored_def by auto
  have "sorted (map (\<lambda>(score, product). - score) srt)"
    unfolding srt_def by (rule sorted_sort_key)
  then have "sorted_wrt (\<lambda>a b. fst a \<ge> fst b) srt"
    by (simp add: sorted_map case_prod_beta)
  then have 2: "sorted_wrt (\<lambda>a b. fst a \<ge> fst b) r"
    using pre by (rule sorted_wrt_prefix[rotated])
  have 3: "prefix (filter (\<lambda>c. fst c = k) r) (filter (\<lambda>c. fst c = k) scored)" for k
  proof -
    have st: "filter (\<lambda>c. (\<lambda>(score, product). - score) c = - k) srt
        = filter (\<lambda>c. (\<lambda>(score, product). - score) c = - k) kept"
      unfolding srt_def by (rule sort_key_stable)
    have eq: "(\<lambda>c. (\<lambda>(score, product). - score) c = - k)
              = (\<lambda>c::real \<times> catalog_product. fst c = k)"
      by (auto simp: fun_eq_iff)
    have a: "prefix (filter (\<lambda>c. fst c = k) r) (filter (\<lambda>c. fst c = k) kept)"
      using filter_mono_prefix[OF pre, of "\<lambda>c. fst c = k"] st unfolding eq by simp
    have "filter (\<lambda>c. fst c = k) kept
          = (if min_score \<le> k then filter (\<lambda>c. fst c = k) scored else [])"
      unfolding kept_def by (auto simp: filter_empty_conv intro!: filter_cong)
    then show ?thesis using a by (auto split: if_splits)
  qed
  have 4: "0 \<le> max_results \<longrightarrow> int (length r) \<le> max_results"
    using py_slice_to_length[of max_results srt] unfolding r by auto
  show ?thesis using 1 2 3 4 unfolding r_def scored_def by blast
qed

theorem match_ranked_witness:
  "mr_matches (match ex_ratio ex_catalog ''zzz'' (Some ''Acorn'') (Some ''Ceiling Fans'') 2 0.3)
     = [(0.5, ex_product ''Acorn Fan''), (0.3, ex_product ''Acorn Hood'')]"
  using match_ranked
    [of ex_ratio ex_catalog "''zzz''" "Some ''Acorn''" "Some ''Ceiling Fans''" 2 "0.3"]
  by (simp add: ex_matches py_slice_to_def)

subsection \<open>Message handler\<close>

lemma new_context_inv: "session_inv (new_context env phone)"
  by (simp add: session_inv_def new_context_def)

text \<open>A new inquiry ends in \<open>PROCESSING\<close> or \<open>AWAITING_INQUIRY\<close>, or in
  \<open>AWAITING_CONFIRMATION\<close> with an extracted order.\<close>

lemma handle_new_inquiry_states:
  "c_state (fst (handle_new_inquiry env ctx msg)) \<in> {PROCESSING, AWAITING_INQUIRY}
   \<or> (c_state (fst (handle_new_inquiry env ctx msg)) = AWAITING_CONFIRMATION
      \<and> c_extracted_order (fst (handle_new_inquiry env ctx msg)) \<noteq> None)"
  unfolding handle_new_inquiry_def Let_def
  by (simp split: sum.split)

lemma handle_new_inquiry_inv: "session_inv (fst (handle_new_inquiry env ctx msg))"
  using handle_new_inquiry_states[of env ctx msg] unfolding session_inv_def by auto

lemma search_products_ctx: "fst (search_products env ctx msg) = ctx"
  unfolding search_products_def by (simp split: sum.split prod.split)

lemma handle_product_selection_inv:
  assumes "session_inv ctx" "c_state ctx = AWAITING_PRODUCT_SELECTION"
  shows "session_inv (fst (handle_product_selection env ctx msg))"
  using assms unfolding handle_product_selection_def session_inv_def
  by (auto simp: search_products_ctx split: sum.split option.split)

lemma handle_quantity_input_inv:
  assumes "session_inv ctx" "c_state ctx = AWAITING_QUANTITY"
  shows "session_inv (fst (handle_quantity_input env ctx msg))"
  using assms unfolding handle_quantity_input_def session_inv_def
  by (auto split: sum.split)

lemma handle_confirmation_inv:
  assumes "session_inv ctx" "c_state ctx = AWAITING_CONFIRMATION"
  shows "session_inv (fst (handle_confirmation env ctx msg))"
  using assms unfolding handle_confirmation_def session_inv_def Let_def
  by (auto split: option.split)

lemma handle_delivery_info_inv:
  assumes "session_inv ctx" "c_state ctx = AWAITING_DELIVERY_INFO"
  shows "session_inv (fst (handle_delivery_info env ctx msg))"
  using assms unfolding handle_delivery_info_def session_inv_def Let_def
  by (auto split: option.split)

lemma handle_context_inv:
  assumes "session_inv ctx"
  shows "session_inv (fst (handle_context env ctx msg))"
proof -
  define c where "c = ctx\<lparr>c_last_message_at := Some (e_now env)\<rparr>"
  have c: "session_inv c" using assms by (simp add: c_def session_inv_def)
  show ?thesis
    unfolding handle_context_def Let_def c_def[symmetric]
    using c handle_new_inquiry_inv handle_product_selection_inv
      handle_quantity_input_inv handle_confirmation_inv handle_delivery_info_inv
    by simp
qed

lemma apply_event_inv:
  assumes "\<forall>phone ctx. conversations phone = Some ctx \<longrightarrow> session_inv ctx"
  shows "\<forall>phone ctx. apply_event conversations ev phone = Some ctx \<longrightarrow> session_inv ctx"
proof (cases ev)
  case (Message env sender body)
  have g: "session_inv (get_or_create_context env conversations sender)"
    using assms by (auto simp: get_or_create_context_def new_context_inv split: option.split)
  show ?thesis
    using assms handle_context_inv[OF g, of env body]
    by (auto simp: Message handle_message_def Let_def split: prod.splits if_splits)
next
  case (Reset sender)
  then show ?thesis using assms by (auto simp: reset_context_def)
qed

lemma foldl_inv:
  "\<forall>phone ctx. conversations phone = Some ctx \<longrightarrow> session_inv ctx \<Longrightarrow>
   \<forall>phone ctx. foldl apply_event conversations events phone = Some ctx \<longrightarrow> session_inv ctx"
proof (induction events arbitrary: conversations)
  case Nil
  then show ?case by simp
next
  case (Cons ev events)
  show ?case
    using Cons.IH[OF apply_event_inv[OF Cons.prems, of ev]] by simp
qed

lemma run_inv: "run events phone = Some ctx \<Longrightarrow> session_inv ctx"
  unfolding run_def using foldl_inv[of Map.empty events] by simp

text \<open>The concrete session: the first message is parsed by the fallback, matched and
  extracted; the session awaits the confirmation of an order with delivery to Bedok.\<close>

lemma ex_run:
  "run [Message ex_env ''6591234567'' ''10 acorn fans to bedok''] ''6591234567''
   = Some ex_session"
  by (simp add: run_def handle_message_def get_or_create_context_def ex_session_def split_beta)

lemma ex_parse_order:
  "parse None ''10 acorn fans to bedok'' =
     Inr \<lparr> intent_type = ORDER_INQUIRY,
           products = [\<lparr> pi_raw_text = ''10 acorn fans to bedok'', pi_product_name = None,
                         pi_quantity = Some 10, pi_brand = Some ''Acorn'',
                         pi_category = Some ''Ceiling Fans'', pi_confidence = 0.6 \<rparr>],
           p_delivery = Some \<lparr> di_address = Some ''Bedok'', di_date = None,
                                di_urgency = None, di_notes = None \<rparr>,
           p_customer_name = None, p_contact_info = None,
           p_raw_message = ''10 acorn fans to bedok'', p_confidence_score = 0.5,
           p_needs_clarification = False,
           p_clarification_questions =
             [''Could you provide more details about the specific model you need?''],
           p_summary = ''Request for Ceiling Fans from Acorn'' \<rparr>"
  by (simp add: parser_defs str_defs Let_def)

lemma ex_session_state:
  "c_state ex_session = AWAITING_CONFIRMATION
   \<and> map_option od_delivery (c_extracted_order ex_session)
       = Some (Some (FromOrder \<lparr> dd_address = ''Bedok'', dd_city = ''Singapore'',
            dd_postal_code = None, dd_contact_name = None, dd_contact_phone = None,
            dd_preferred_date = None, dd_preferred_time = None, dd_instructions = None \<rparr>))
   \<and> map_option (order_id \<circ> od_order) (c_extracted_order ex_session)
       = Some ''UB-20260131-ABC123''"
  unfolding ex_session_def
  by (simp add: handle_context_def handle_new_inquiry_def new_context_def ex_env_def
      ex_parse_order to_dict_def order_defs ex_defs Let_def)

lemma ex_parse_status:
  "intent_type (projr (parse None ''status of my order?'')) = ORDER_STATUS
   \<and> isl (parse None ''status of my order?'') = False"
  by (simp add: parser_defs str_defs Let_def)

text \<open>
  Claim C5: for every session in state IDLE or AWAITING_INQUIRY and every message whose
  intent kind is order_status, handling the message leaves the session's state unchanged
  and emits a prompt asking for the order number. The prompt is emitted, but the state is
  not unchanged: \<^verbatim>\<open>_handle_new_inquiry\<close> sets the state to \<open>PROCESSING\<close> first and its
  \<^verbatim>\<open>ORDER_STATUS\<close> branch returns without setting it again (the \<^verbatim>\<open>UNCLEAR\<close> branch beside it
  sets \<open>AWAITING_INQUIRY\<close>). For a new session (IDLE) and the message
  "status of my order?":
\<close>

theorem order_status_leaves_processing:
  "c_state (new_context ex_env ''6591234567'') = IDLE
   \<and> c_state (fst (handle_context ex_env (new_context ex_env ''6591234567'')
                     ''status of my order?'')) = PROCESSING
   \<and> snd (handle_context ex_env (new_context ex_env ''6591234567'') ''status of my order?'')
       = Inr (SendText ProvideOrderNumber)"
proof -
  obtain p where p: "parse None ''status of my order?'' = Inr p" "intent_type p = ORDER_STATUS"
    using ex_parse_status by (cases "parse None ''status of my order?''") auto
  show ?thesis
    by (simp add: handle_context_def handle_new_inquiry_def new_context_def ex_env_def p Let_def)
qed

text \<open>
  Claim C6: for every session in state AWAITING_CONFIRMATION receiving a confirm-synonym,
  if the draft order lacks delivery info the session moves to AWAITING_DELIVERY_INFO with a
  delivery-request prompt, otherwise it moves to ORDER_CONFIRMED with a final confirmation
  carrying the order id; and along every reachable path a session is never in
  ORDER_CONFIRMED without delivery info present on its draft order. The sessions are those
  of a handler after any sequence of messages and resets, with any components.
\<close>

theorem confirmation_flow:
  assumes "run events phone = Some ctx"
  shows "(c_state ctx = ORDER_CONFIRMED \<longrightarrow>
            (\<exists>order. c_extracted_order ctx = Some order \<and> od_delivery order \<noteq> None))
       \<and> (c_state ctx = AWAITING_CONFIRMATION
            \<and> strip (lower message) \<in> {''confirm_order'', ''yes'', ''confirm'', ''proceed''} \<longrightarrow>
            (\<exists>order. c_extracted_order ctx = Some order
               \<and> handle_context env ctx message =
                   (if od_delivery order = None
                    then (ctx\<lparr>c_last_message_at := Some (e_now env),
                               c_state := AWAITING_DELIVERY_INFO\<rparr>,
                          Inr (SendText DeliveryRequest))
                    else (ctx\<lparr>c_last_message_at := Some (e_now env),
                               c_state := ORDER_CONFIRMED\<rparr>,
                          Inr (OrderConfirmedAction (order_id (od_order order)) order
                                 (OrderConfirmedText (order_id (od_order order))))))))"
proof -
  have inv: "session_inv ctx" using assms by (rule run_inv)
  have 1: "c_state ctx = ORDER_CONFIRMED \<longrightarrow>
            (\<exists>order. c_extracted_order ctx = Some order \<and> od_delivery order \<noteq> None)"
    using inv unfolding session_inv_def by (auto split: option.splits)
  have 2: "\<exists>order. c_extracted_order ctx = Some order
               \<and> handle_context env ctx message =
                   (if od_delivery order = None
                    then (ctx\<lparr>c_last_message_at := Some (e_now env),
                               c_state := AWAITING_DELIVERY_INFO\<rparr>,
                          Inr (SendText DeliveryRequest))
                    else (ctx\<lparr>c_last_message_at := Some (e_now env),
                               c_state := ORDER_CONFIRMED\<rparr>,
                          Inr (OrderConfirmedAction (order_id (od_order order)) order
                                 (OrderConfirmedText (order_id (od_order order))))))"
    if st: "c_state ctx = AWAITING_CONFIRMATION"
      and m: "strip (lower message) \<in> {''confirm_order'', ''yes'', ''confirm'', ''proceed''}"
  proof -
    from inv st obtain order where o: "c_extracted_order ctx = Some order"
      unfolding session_inv_def by auto
    have m': "strip (lower message)
               \<in> set [''confirm_order'', ''yes'', ''confirm'', ''proceed'']"
      using m by simp
    show ?thesis
      unfolding handle_context_def handle_confirmation_def Let_def
      using st o m' by (simp del: set_simps)
  qed
  show ?thesis using 1 2 by blast
qed

theorem confirmation_flow_witness:
  "c_state (fst (handle_context ex_env ex_session ''Yes '')) = ORDER_CONFIRMED"
  using confirmation_flow [OF ex_run, of "''Yes ''" ex_env] ex_session_state
  by (auto simp: str_defs)

end
